theory Spec2Isabelle
  imports Complex_Main
begin

section \<open>Hardware operations and their outcomes\<close>

text \<open>
  The Python sources talk to the I2C multiplexer (\<open>write_byte\<close> of a channel mask
  to address 0x70), to the display (\<open>ssd1306(...)\<close>), to the PCA9685 servo driver
  (\<open>ServoKit(...)\<close> with its range settings, and \<open>servo[n].angle = a\<close>) and to the
  state file (\<open>json.dump\<close>). Each of these may raise. The model keeps a script of
  the outcomes of the operations still to come (an exhausted script means success) and a
  trace of the operations issued so far together with their outcome; \<open>time.sleep\<close> is
  recorded in the trace and never fails. Angles, sensitivities and times are Python
  floats; they are modelled as exact rationals.
\<close>

datatype mode = Direct | Fine | Range

datatype hw_op =
    MuxSelect nat
  | OledInit
  | ServoInit
  | ServoAngle nat rat
  | WriteState rat mode
  | Sleep rat

record io =
  script :: "bool list"
  trace :: "(hw_op \<times> bool) list"

definition perform :: "hw_op \<Rightarrow> 'a io_scheme \<Rightarrow> bool \<times> 'a io_scheme" where
  "perform op w =
     (case script w of
        [] \<Rightarrow> (True, w\<lparr>trace := trace w @ [(op, True)]\<rparr>)
      | b # bs \<Rightarrow> (b, w\<lparr>script := bs, trace := trace w @ [(op, b)]\<rparr>))"

definition sleep :: "rat \<Rightarrow> 'a io_scheme \<Rightarrow> 'a io_scheme" where
  "sleep d w = w\<lparr>trace := trace w @ [(Sleep d, True)]\<rparr>"

fun is_mux_write :: "hw_op \<times> bool \<Rightarrow> bool" where
  "is_mux_write (MuxSelect m, ok) = True"
| "is_mux_write (other, ok) = False"

definition mux_writes :: "(hw_op \<times> bool) list \<Rightarrow> (hw_op \<times> bool) list" where
  "mux_writes tr = filter is_mux_write tr"

definition acked_mux_writes :: "(hw_op \<times> bool) list \<Rightarrow> (hw_op \<times> bool) list" where
  "acked_mux_writes tr = filter snd (mux_writes tr)"

text \<open>The mask the multiplexer holds: that of the last acknowledged select write.\<close>

definition mux_register :: "(hw_op \<times> bool) list \<Rightarrow> nat option" where
  "mux_register tr =
     (case rev (acked_mux_writes tr) of
        (MuxSelect m, ok) # rest \<Rightarrow> Some m
      | _ \<Rightarrow> None)"

section \<open>Configuration\<close>

text \<open>
  \<open>config['modes'][m]\<close> carries a sensitivity for every mode; the entry of \<open>range\<close>
  carries its own bounds as well.
\<close>

record config =
  servo_channel_cfg :: nat
  default_mode :: mode
  direct_sensitivity :: rat
  fine_sensitivity :: rat
  range_sensitivity :: rat
  range_min_angle :: rat
  range_max_angle :: rat
  min_angle :: rat
  max_angle :: rat
  center_angle :: rat

fun sensitivity :: "config \<Rightarrow> mode \<Rightarrow> rat" where
  "sensitivity cfg Direct = direct_sensitivity cfg"
| "sensitivity cfg Fine = fine_sensitivity cfg"
| "sensitivity cfg Range = range_sensitivity cfg"

text \<open>The defaults of \<open>UnifiedCyberdeckController.load_config\<close>.\<close>

definition unified_default_config :: config where
  "unified_default_config =
     \<lparr>servo_channel_cfg = 0, default_mode = Direct,
      direct_sensitivity = 10, fine_sensitivity = 2, range_sensitivity = 10,
      range_min_angle = 90, range_max_angle = 180,
      min_angle = 0, max_angle = 270, center_angle = 145\<rparr>"

text \<open>The defaults of \<open>ScreenTiltController.load_config\<close>.\<close>

definition tilt_default_config :: config where
  "tilt_default_config =
     \<lparr>servo_channel_cfg = 0, default_mode = Direct,
      direct_sensitivity = 5, fine_sensitivity = 1, range_sensitivity = 5,
      range_min_angle = 90, range_max_angle = 180,
      min_angle = 0, max_angle = 270, center_angle = 250\<rparr>"

text \<open>
  The limits both controllers apply: \<open>max(lo, min(hi, x))\<close> with the bounds of the
  \<open>range\<close> entry in Range mode and the global bounds otherwise.
\<close>

definition effective_min :: "config \<Rightarrow> mode \<Rightarrow> rat" where
  "effective_min cfg m = (if m = Range then range_min_angle cfg else min_angle cfg)"

definition effective_max :: "config \<Rightarrow> mode \<Rightarrow> rat" where
  "effective_max cfg m = (if m = Range then range_max_angle cfg else max_angle cfg)"

definition clamp :: "rat \<Rightarrow> rat \<Rightarrow> rat \<Rightarrow> rat" where
  "clamp lo hi x = max lo (min hi x)"

definition apply_limits :: "config \<Rightarrow> mode \<Rightarrow> rat \<Rightarrow> rat" where
  "apply_limits cfg m x =
     (if m = Range then clamp (range_min_angle cfg) (range_max_angle cfg) x
      else clamp (min_angle cfg) (max_angle cfg) x)"


section \<open>The unified controller\<close>

text \<open>
  \<open>EncoderEvent\<close> is a dataclass of a type string and an integer value (0 unless
  given).
\<close>

record encoder_event =
  etype :: string
  evalue :: int

definition EncoderEvent :: "string \<Rightarrow> int \<Rightarrow> encoder_event" where
  "EncoderEvent t v = \<lparr>etype = t, evalue = v\<rparr>"

definition OLED_CHANNEL :: nat where
  "OLED_CHANNEL = 0"

definition SERVO_CHANNEL :: nat where
  "SERVO_CHANNEL = 1"

text \<open>The state dictionary read from \<open>position_state.json\<close>; either key may be absent.\<close>

record persisted =
  last_position :: "rat option"
  saved_mode :: "mode option"

text \<open>
  Both controller classes keep \<open>current_angle\<close>, \<open>encoder_pos\<close> and \<open>mode\<close>. In the
  unified controller \<open>mux_bus\<close>, \<open>oled_device\<close> and \<open>servo_kit\<close> are objects or
  \<open>None\<close>; the model keeps whether they are present.
\<close>

record servo_model = io +
  current_angle :: rat
  encoder_pos :: int
  mode :: mode

record controller = servo_model +
  mux_bus :: bool
  current_mux_channel :: "nat option"
  oled_device :: bool
  servo_kit :: bool
  servo_channel :: nat
  encoder_queue :: "encoder_event list"

text \<open>
  \<open>switch_mux_channel\<close>: no multiplexer means success without a write; a cached
  channel equal to the target means success without a write; otherwise one
  \<open>write_byte\<close> of \<open>1 << channel\<close>, then the cache updated and a 2 ms sleep on
  success, \<open>False\<close> on an exception. Calls are taken one after the other, as
  \<open>mux_lock\<close> orders them.
\<close>

definition switch_mux_channel :: "nat \<Rightarrow> 'a controller_scheme \<Rightarrow> bool \<times> 'a controller_scheme" where
  "switch_mux_channel channel s =
     (if \<not> mux_bus s then (True, s)
      else if current_mux_channel s = Some channel then (True, s)
      else
        (let (ok, s1) = perform (MuxSelect (2 ^ channel)) s in
         if ok then (True, sleep (2 / 1000) (s1\<lparr>current_mux_channel := Some channel\<rparr>))
         else (False, s1)))"

definition init_oled :: "'a controller_scheme \<Rightarrow> 'a controller_scheme" where
  "init_oled s =
     (let (ok, s1) = switch_mux_channel OLED_CHANNEL s in
      if \<not> ok then s1
      else
        (let (ok2, s2) = perform OledInit s1 in
         s2\<lparr>oled_device := ok2\<rparr>))"

definition init_servo :: "config \<Rightarrow> 'a controller_scheme \<Rightarrow> 'a controller_scheme" where
  "init_servo cfg s =
     (let (ok, s1) = switch_mux_channel SERVO_CHANNEL s in
      if \<not> ok then s1
      else
        (let (ok2, s2) = perform ServoInit s1;
             s3 =
               (if ok2 then
                  (let s2a = s2\<lparr>servo_kit := True, servo_channel := servo_channel_cfg cfg\<rparr>;
                       (ok3, s2b) = perform (ServoAngle (servo_channel s2a) (current_angle s2a)) s2a
                   in if ok3 then s2b else s2b\<lparr>servo_kit := False\<rparr>)
                else s2\<lparr>servo_kit := False\<rparr>)
         in snd (switch_mux_channel OLED_CHANNEL s3)))"

text \<open>
  \<open>__init__\<close>, with what the environment decides as parameters: the state dictionary,
  whether the multiplexer answered the probe of \<open>init_multiplexer\<close>, and the outcomes
  of the hardware operations to come. The angle and the mode are seeded from the state
  dictionary with the literals 145.0 and \<open>direct\<close> as defaults; \<open>encoder_pos\<close> starts
  at 0.
\<close>

definition unified_init :: "config \<Rightarrow> persisted \<Rightarrow> bool \<Rightarrow> bool list \<Rightarrow> controller" where
  "unified_init cfg st mux_found outcomes =
     (let s0 = \<lparr>script = outcomes, trace = [],
                current_angle = 0, encoder_pos = 0, mode = Direct,
                mux_bus = mux_found, current_mux_channel = None,
                oled_device = False, servo_kit = False, servo_channel = 0,
                encoder_queue = []\<rparr>;
          s1 = init_oled s0;
          s2 = s1\<lparr>servo_kit := False, servo_channel := 0,
                  current_angle := (case last_position st of Some p \<Rightarrow> p | None \<Rightarrow> 145),
                  encoder_pos := 0,
                  mode := (case saved_mode st of Some m \<Rightarrow> m | None \<Rightarrow> Direct)\<rparr>
      in init_servo cfg s2)"

text \<open>
  \<open>encoder_polling_thread\<close>. One iteration reads the logical levels
  \<open>clk_pin.is_pressed\<close>, \<open>dt_pin.is_pressed\<close> and \<open>sw_pin.is_pressed\<close> and, where the
  button code asks for it, \<open>time.time()\<close>. The loop variables \<open>last_clk_state\<close> and
  \<open>button_press_time\<close> are arguments of the recursion; the queue collects the events
  put, oldest first. The loop runs for as long as \<open>encoder_running\<close> holds, here for the
  samples given.
\<close>

record sample =
  clk :: bool
  dt :: bool
  sw :: bool
  now :: rat

definition poll_rotation :: "bool \<Rightarrow> sample \<Rightarrow> encoder_event list" where
  "poll_rotation last_clk smp =
     (if clk smp \<noteq> last_clk \<and> clk smp = False then
        (if dt smp \<noteq> clk smp then [EncoderEvent ''rotation'' 1]
         else [EncoderEvent ''rotation'' (- 1)])
      else [])"

definition poll_button :: "rat \<Rightarrow> sample \<Rightarrow> rat \<times> encoder_event list" where
  "poll_button press_time smp =
     (if sw smp then
        (if press_time = 0 then (now smp, []) else (press_time, []))
      else
        (if press_time > 0 then
           (let duration = now smp - press_time in
            if duration > 1 then (0, [EncoderEvent ''long_press'' 0])
            else (0, [EncoderEvent ''click'' 0]))
         else (press_time, [])))"

fun encoder_polling_thread ::
  "sample list \<Rightarrow> bool \<Rightarrow> rat \<Rightarrow> encoder_event list \<Rightarrow> encoder_event list" where
  "encoder_polling_thread [] last_clk press_time queue = queue"
| "encoder_polling_thread (smp # rest) last_clk press_time queue =
     (let rot = poll_rotation last_clk smp;
          (press_time', btn) = poll_button press_time smp
      in encoder_polling_thread rest (clk smp) press_time' (queue @ rot @ btn))"

text \<open>
  Lines 280 to 288 of \<open>update_servo_angle\<close>: switch to the servo channel; if that
  succeeds write the angle, an exception of the write being caught, and in the
  \<open>finally\<close> clause switch back to the display channel.
\<close>

definition servo_write_scoped :: "'a controller_scheme \<Rightarrow> 'a controller_scheme" where
  "servo_write_scoped s =
     (let (ok, s1) = switch_mux_channel SERVO_CHANNEL s in
      if ok then
        (let (written, s2) = perform (ServoAngle (servo_channel s1) (current_angle s1)) s1
         in snd (switch_mux_channel OLED_CHANNEL s2))
      else s1)"

definition update_servo_angle :: "config \<Rightarrow> int \<Rightarrow> 'a controller_scheme \<Rightarrow> 'a controller_scheme" where
  "update_servo_angle cfg delta s =
     (if \<not> servo_kit s then s
      else
        (let sens = sensitivity cfg (mode s);
             s1 = s\<lparr>encoder_pos := encoder_pos s + delta\<rparr>;
             new_angle = apply_limits cfg (mode s1)
                           (center_angle cfg + of_int (encoder_pos s1) * sens)
         in if new_angle \<noteq> current_angle s1
            then servo_write_scoped (s1\<lparr>current_angle := new_angle\<rparr>)
            else s1))"

text \<open>
  \<open>save_state\<close> writes the angle and the mode (and a time stamp, left out here); a
  failure is caught and printed.
\<close>

definition save_state :: "'a servo_model_scheme \<Rightarrow> 'a servo_model_scheme" where
  "save_state s = snd (perform (WriteState (current_angle s) (mode s)) s)"

definition process_event :: "config \<Rightarrow> encoder_event \<Rightarrow> 'a controller_scheme \<Rightarrow> 'a controller_scheme" where
  "process_event cfg event s =
     (if etype event = ''rotation'' then update_servo_angle cfg (evalue event) s
      else if etype event = ''click'' then update_servo_angle cfg 0 (s\<lparr>encoder_pos := 0\<rparr>)
      else if etype event = ''long_press'' then save_state s
      else s)"

text \<open>
  \<open>process_encoder_events\<close> takes events off the queue until it is empty; the events
  taken are those queued when it starts.
\<close>

fun drain :: "config \<Rightarrow> encoder_event list \<Rightarrow> 'a controller_scheme \<Rightarrow> 'a controller_scheme" where
  "drain cfg [] s = s"
| "drain cfg (event # rest) s = drain cfg rest (process_event cfg event s)"

definition process_encoder_events :: "config \<Rightarrow> 'a controller_scheme \<Rightarrow> 'a controller_scheme" where
  "process_encoder_events cfg s = drain cfg (encoder_queue s) (s\<lparr>encoder_queue := []\<rparr>)"

section \<open>The multiplexer wrappers\<close>

text \<open>A call either returns a value or leaves by an uncaught exception.\<close>

datatype 'r res = Returned 'r | Raised

text \<open>
  \<open>ServoKitWithMux\<close> (fixed_servo_init.py). \<open>ensure_mux_channel\<close> opens the bus,
  writes \<open>1 << mux_channel\<close> and sleeps 2 ms, swallowing any exception. \<open>set_angle\<close>
  calls it, writes the angle and sleeps 5 ms, returns \<open>False\<close> if the write raised, and
  in its \<open>finally\<close> clause writes \<open>1 << 0\<close>, again swallowing any exception.
\<close>

record servo_kit_with_mux =
  swm_mux_channel :: nat
  swm_servo_channel :: nat

definition ensure_mux_channel :: "servo_kit_with_mux \<Rightarrow> 'a io_scheme \<Rightarrow> 'a io_scheme" where
  "ensure_mux_channel k w =
     (let (ok, w1) = perform (MuxSelect (2 ^ swm_mux_channel k)) w in
      if ok then sleep (2 / 1000) w1 else w1)"

definition set_angle :: "servo_kit_with_mux \<Rightarrow> rat \<Rightarrow> 'a io_scheme \<Rightarrow> bool \<times> 'a io_scheme" where
  "set_angle k angle w =
     (let w1 = ensure_mux_channel k w;
          (ok, w2) = perform (ServoAngle (swm_servo_channel k) angle) w1;
          w3 = (if ok then sleep (5 / 1000) w2 else w2);
          (back, w4) = perform (MuxSelect (2 ^ 0)) w3
      in (ok, w4))"

text \<open>
  \<open>MuxAwareServoKit\<close> (mux_aware_servo.py). The context manager
  \<open>mux_channel_selected\<close> writes \<open>1 << mux_channel\<close> and sleeps 2 ms before the body
  when \<open>mux_bus\<close> is open; an exception of that write, or of the body, leaves the
  manager after the \<open>finally\<close> clause, which writes \<open>1 << 0\<close> and sleeps 2 ms,
  swallowing an exception of its own. Without \<open>mux_bus\<close> the body runs alone.
\<close>

record mux_aware_servo_kit =
  mak_mux_channel :: nat
  mak_kit :: bool
  mak_mux_bus :: bool

definition mux_channel_selected ::
  "mux_aware_servo_kit \<Rightarrow> ('a io_scheme \<Rightarrow> 'r res \<times> 'a io_scheme) \<Rightarrow> 'a io_scheme
     \<Rightarrow> 'r res \<times> 'a io_scheme" where
  "mux_channel_selected k body w =
     (if mak_mux_bus k then
        (let (ok, w1) = perform (MuxSelect (2 ^ mak_mux_channel k)) w;
             (r, w2) = (if ok then body (sleep (2 / 1000) w1) else (Raised, w1));
             (back, w3) = perform (MuxSelect (2 ^ 0)) w2;
             w4 = (if back then sleep (2 / 1000) w3 else w3)
         in (r, w4))
      else body w)"

definition set_servo_angle ::
  "mux_aware_servo_kit \<Rightarrow> nat \<Rightarrow> rat \<Rightarrow> 'a io_scheme \<Rightarrow> bool res \<times> 'a io_scheme" where
  "set_servo_angle k servo_num angle w =
     (if \<not> mak_kit k then (Returned False, w)
      else mux_channel_selected k
             (\<lambda>w'. let (ok, w1) = perform (ServoAngle servo_num angle) w' in (Returned ok, w1))
             w)"

text \<open>
  \<open>ResilientMuxOLED._ensure_channel\<close> (mux_resilient_oled.py): nothing to do without
  a multiplexer or, unless forced, within \<open>recovery_interval\<close> of the last success;
  otherwise up to three select writes, 10 ms apart, the first success recording the time
  after a 2 ms sleep. \<open>ensure_attempts n\<close> is the loop with \<open>n\<close> attempts left.
\<close>

record resilient_mux_oled = io +
  rmo_mux_channel :: nat
  recovery_interval :: rat
  last_ensure_time :: rat
  operation_count :: nat
  mux_available :: bool

fun ensure_attempts ::
  "nat \<Rightarrow> rat \<Rightarrow> 'a resilient_mux_oled_scheme \<Rightarrow> bool \<times> 'a resilient_mux_oled_scheme" where
  "ensure_attempts 0 current_time r = (False, r)"
| "ensure_attempts (Suc left) current_time r =
     (let (ok, r1) = perform (MuxSelect (2 ^ rmo_mux_channel r)) r in
      if ok then (True, (sleep (2 / 1000) r1)\<lparr>last_ensure_time := current_time\<rparr>)
      else if left = 0 then (False, r1)
      else ensure_attempts left current_time (sleep (10 / 1000) r1))"

definition ensure_channel ::
  "bool \<Rightarrow> rat \<Rightarrow> 'a resilient_mux_oled_scheme \<Rightarrow> bool \<times> 'a resilient_mux_oled_scheme" where
  "ensure_channel force current_time r =
     (if \<not> mux_available r then (True, r)
      else if \<not> force \<and> current_time - last_ensure_time r < recovery_interval r then (True, r)
      else ensure_attempts 3 current_time r)"

section \<open>The screen tilt controller\<close>

text \<open>
  \<open>ScreenTiltController\<close> drives the servo through \<open>fixed_servo\<close>, \<open>mux_servo\<close> or
  \<open>kit\<close>, whichever its constructor obtained. \<open>click_timer\<close> holds the time at which
  the armed \<open>threading.Timer\<close> fires, \<open>None\<close> when no timer is waiting. The class
  calls its gesture handlers directly; \<open>gestures\<close> is a history of the handlers entered,
  oldest first, kept by the model so that theorems can speak of them.
\<close>

datatype gesture = SingleClick | DoubleClicked | LongPressed

record tilt = servo_model +
  fixed_servo :: "servo_kit_with_mux option"
  mux_servo :: "mux_aware_servo_kit option"
  kit :: bool
  last_clk_state :: bool
  button_press_time :: rat
  click_count :: nat
  click_timer :: "rat option"
  gestures :: "gesture list"

definition tilt_seed :: "config \<Rightarrow> persisted \<Rightarrow> 'a tilt_scheme \<Rightarrow> 'a tilt_scheme" where
  "tilt_seed cfg st s =
     s\<lparr>current_angle := (case last_position st of Some p \<Rightarrow> p | None \<Rightarrow> center_angle cfg),
       encoder_pos := 0,
       mode := (case saved_mode st of Some m \<Rightarrow> m | None \<Rightarrow> default_mode cfg)\<rparr>"

definition update_servo :: "config \<Rightarrow> 'a tilt_scheme \<Rightarrow> unit res \<times> 'a tilt_scheme" where
  "update_servo cfg s =
     (let sens = sensitivity cfg (mode s);
          new_angle = apply_limits cfg (mode s)
                        (center_angle cfg + of_int (encoder_pos s) * sens)
      in if new_angle \<noteq> current_angle s then
           (let s1 = s\<lparr>current_angle := new_angle\<rparr> in
            case fixed_servo s1 of
              Some k \<Rightarrow> (let (ok, s2) = set_angle k (current_angle s1) s1 in (Returned (), s2))
            | None \<Rightarrow>
               (case mux_servo s1 of
                  Some k \<Rightarrow>
                    (let (r, s2) = set_servo_angle k (servo_channel_cfg cfg) (current_angle s1) s1
                     in case r of Raised \<Rightarrow> (Raised, s2) | Returned ok \<Rightarrow> (Returned (), s2))
                | None \<Rightarrow>
                    (if kit s1 then
                       (let (ok, s2) = perform (ServoAngle (servo_channel_cfg cfg) (current_angle s1)) s1
                        in (Returned (), s2))
                     else (Returned (), s1))))
         else (Returned (), s))"

text \<open>
  \<open>check_encoder\<close> with the levels read as arguments; \<open>last_clk_state\<close> is stored
  only when \<open>update_servo\<close> returns.
\<close>

definition check_encoder :: "config \<Rightarrow> bool \<Rightarrow> bool \<Rightarrow> 'a tilt_scheme \<Rightarrow> unit res \<times> 'a tilt_scheme" where
  "check_encoder cfg clk_state dt_state s =
     (if clk_state \<noteq> last_clk_state s \<and> clk_state = False then
        (let s1 = (if dt_state \<noteq> clk_state then s\<lparr>encoder_pos := encoder_pos s + 1\<rparr>
                   else s\<lparr>encoder_pos := encoder_pos s - 1\<rparr>)
         in case update_servo cfg s1 of
              (Raised, s2) \<Rightarrow> (Raised, s2)
            | (Returned u, s2) \<Rightarrow> (Returned (), s2\<lparr>last_clk_state := clk_state\<rparr>))
      else (Returned (), s\<lparr>last_clk_state := clk_state\<rparr>))"

text \<open>
  \<open>ScreenTiltController.run\<close>: one \<open>check_encoder\<close> per iteration, on the levels
  of CLK and DT read in that iteration, here for the samples given. An exception of
  \<open>check_encoder\<close> is not caught and ends the loop.
\<close>

fun run :: "config \<Rightarrow> (bool \<times> bool) list \<Rightarrow> 'a tilt_scheme \<Rightarrow> unit res \<times> 'a tilt_scheme" where
  "run cfg [] s = (Returned (), s)"
| "run cfg ((clk_state, dt_state) # rest) s =
     (case check_encoder cfg clk_state dt_state s of
        (Raised, s1) \<Rightarrow> (Raised, s1)
      | (Returned u, s1) \<Rightarrow> run cfg rest s1)"

text \<open>The handlers. \<open>save_state\<close> of this class does not catch a failing write.\<close>

definition handle_long_press :: "'a tilt_scheme \<Rightarrow> unit res \<times> 'a tilt_scheme" where
  "handle_long_press s =
     (let s1 = s\<lparr>gestures := gestures s @ [LongPressed]\<rparr>;
          (ok, s2) = perform (WriteState (current_angle s1) (mode s1)) s1
      in if ok then (Returned (), s2) else (Raised, s2))"

definition handle_single_click :: "config \<Rightarrow> 'a tilt_scheme \<Rightarrow> unit res \<times> 'a tilt_scheme" where
  "handle_single_click cfg s =
     update_servo cfg (s\<lparr>gestures := gestures s @ [SingleClick], encoder_pos := 0\<rparr>)"

text \<open>
  \<open>int(x)\<close> of a float truncates towards zero. \<open>modes.index\<close> raises when the mode
  is not in the list, and the division raises when the sensitivity is 0.
\<close>

definition py_int :: "rat \<Rightarrow> int" where
  "py_int x = (if x < 0 then \<lceil>x\<rceil> else \<lfloor>x\<rfloor>)"

definition modes :: "mode list" where
  "modes = [Direct, Fine, Range]"

fun index :: "'a list \<Rightarrow> 'a \<Rightarrow> nat option" where
  "index [] x = None"
| "index (y # ys) x = (if y = x then Some 0 else map_option Suc (index ys x))"

definition handle_double_click :: "config \<Rightarrow> 'a tilt_scheme \<Rightarrow> unit res \<times> 'a tilt_scheme" where
  "handle_double_click cfg s =
     (let s0 = s\<lparr>gestures := gestures s @ [DoubleClicked]\<rparr> in
      case index modes (mode s0) of
        None \<Rightarrow> (Raised, s0)
      | Some current_index \<Rightarrow>
          (let s1 = s0\<lparr>mode := modes ! ((current_index + 1) mod length modes)\<rparr>;
               sens = sensitivity cfg (mode s1)
           in if sens = 0 then (Raised, s1)
              else (Returned (),
                    s1\<lparr>encoder_pos := py_int ((current_angle s1 - center_angle cfg) / sens)\<rparr>)))"

text \<open>
  \<open>_process_clicks\<close>, the timer's callback: the counter is reset only when the handler
  returns.
\<close>

definition process_clicks :: "config \<Rightarrow> 'a tilt_scheme \<Rightarrow> unit res \<times> 'a tilt_scheme" where
  "process_clicks cfg s =
     (let (r, s1) =
            (if click_count s = 1 then handle_single_click cfg s
             else if click_count s = 2 then handle_double_click cfg s
             else (Returned (), s))
      in case r of
           Raised \<Rightarrow> (Raised, s1)
         | Returned u \<Rightarrow> (Returned (), s1\<lparr>click_count := 0\<rparr>))"

text \<open>
  \<open>_button_pressed\<close> and \<open>_button_released\<close>. The arguments of the latter are what
  it reads after its 50 ms sleep: \<open>sw_pin.is_pressed\<close> and \<open>time.time()\<close>. Starting
  the 0.3 s timer replaces the one that was waiting.
\<close>

definition button_pressed :: "rat \<Rightarrow> 'a tilt_scheme \<Rightarrow> 'a tilt_scheme" where
  "button_pressed time s = s\<lparr>button_press_time := time\<rparr>"

definition button_released :: "bool \<Rightarrow> rat \<Rightarrow> 'a tilt_scheme \<Rightarrow> unit res \<times> 'a tilt_scheme" where
  "button_released is_pressed time s =
     (let s0 = sleep (50 / 1000) s in
      if \<not> is_pressed then
        (let press_duration = time - button_press_time s0 in
         if press_duration > 1 then handle_long_press s0
         else (Returned (),
               s0\<lparr>click_count := click_count s0 + 1, click_timer := Some (time + 3 / 10)\<rparr>))
      else (Returned (), s0))"

text \<open>
  The callbacks in time. \<open>Pressed t\<close> and \<open>Released t lvl\<close> are the button's edges at
  time \<open>t\<close>, \<open>lvl\<close> being the level that the release callback reads 50 ms later. A
  timer whose time has come runs \<open>_process_clicks\<close> before the next callback reads the
  state; \<open>settle\<close> lets the waiting timer fire once the input has ended. An exception
  ends the callback that raised it, not the controller.
\<close>

datatype button_edge = Pressed rat | Released rat bool

definition fire_due :: "config \<Rightarrow> rat \<Rightarrow> 'a tilt_scheme \<Rightarrow> 'a tilt_scheme" where
  "fire_due cfg time s =
     (case click_timer s of
        None \<Rightarrow> s
      | Some due \<Rightarrow>
          (if due \<le> time then snd (process_clicks cfg (s\<lparr>click_timer := None\<rparr>)) else s))"

definition settle :: "config \<Rightarrow> 'a tilt_scheme \<Rightarrow> 'a tilt_scheme" where
  "settle cfg s =
     (case click_timer s of
        None \<Rightarrow> s
      | Some due \<Rightarrow> snd (process_clicks cfg (s\<lparr>click_timer := None\<rparr>)))"

fun button_run :: "config \<Rightarrow> button_edge list \<Rightarrow> 'a tilt_scheme \<Rightarrow> 'a tilt_scheme" where
  "button_run cfg [] s = s"
| "button_run cfg (Pressed t # rest) s =
     button_run cfg rest (button_pressed t (fire_due cfg t s))"
| "button_run cfg (Released t lvl # rest) s =
     button_run cfg rest
       (snd (button_released lvl (t + 50 / 1000) (fire_due cfg (t + 50 / 1000) s)))"

text \<open>
  The fields of a \<open>ScreenTiltController\<close> as its constructor assigns them, given the
  servo wrappers it obtained and the level of CLK; the trace starts empty, after the
  constructor's own hardware traffic.
\<close>

definition tilt_init ::
  "config \<Rightarrow> persisted \<Rightarrow> servo_kit_with_mux option \<Rightarrow> mux_aware_servo_kit option \<Rightarrow> bool
     \<Rightarrow> bool \<Rightarrow> bool list \<Rightarrow> tilt" where
  "tilt_init cfg st fixed aware direct clk_level outcomes =
     tilt_seed cfg st
       \<lparr>script = outcomes, trace = [],
        current_angle = 0, encoder_pos = 0, mode = Direct,
        fixed_servo = fixed, mux_servo = aware, kit = direct,
        last_clk_state = clk_level, button_press_time = 0,
        click_count = 0, click_timer = None, gestures = []\<rparr>"

section \<open>The position invariant of the specification\<close>

text \<open>
  The invariant as the specification words it: the angle lies within the bounds of the
  active mode and equals the clamped image of the encoder position.
\<close>

definition servo_invariant :: "config \<Rightarrow> 'a servo_model_scheme \<Rightarrow> bool" where
  "servo_invariant cfg s =
     (effective_min cfg (mode s) \<le> current_angle s
      \<and> current_angle s \<le> effective_max cfg (mode s)
      \<and> current_angle s =
          clamp (effective_min cfg (mode s)) (effective_max cfg (mode s))
            (center_angle cfg + of_int (encoder_pos s) * sensitivity cfg (mode s)))"

text \<open>The order of the modes as the specification gives it.\<close>

fun next_mode :: "mode \<Rightarrow> mode" where
  "next_mode Direct = Fine"
| "next_mode Fine = Range"
| "next_mode Range = Direct"

text \<open>
  The rotation that the specification attaches to two consecutive samples of CLK: one
  step on a change from high to low, forwards when DT differs from the new level of CLK.
\<close>

definition edge_rotation :: "bool \<Rightarrow> bool \<Rightarrow> bool \<Rightarrow> int list" where
  "edge_rotation previous clk_level dt_level =
     (if previous \<and> \<not> clk_level then (if dt_level \<noteq> clk_level then [1] else [- 1])
      else [])"

definition sample_rotation :: "bool \<Rightarrow> sample \<Rightarrow> int list" where
  "sample_rotation previous smp = edge_rotation previous (clk smp) (dt smp)"

definition rotation_values :: "encoder_event list \<Rightarrow> int list" where
  "rotation_values evs = map evalue (filter (\<lambda>e. etype e = ''rotation'') evs)"


section \<open>Concrete runs\<close>

text \<open>
  \<open>load_state\<close> returns the empty dictionary when there is no state file. A unified
  controller started on the default configuration, with a multiplexer, is \<open>booted\<close>;
  its argument gives the outcomes of the hardware operations, those of the constructor
  first: select display, display set-up, select servo, servo set-up, first angle, select
  display.
\<close>

definition no_saved_state :: persisted where
  "no_saved_state = \<lparr>last_position = None, saved_mode = None\<rparr>"

definition booted :: "bool list \<Rightarrow> controller" where
  "booted outcomes = unified_init unified_default_config no_saved_state True outcomes"

text \<open>
  A screen tilt controller on its default configuration, driving the servo through
  \<open>ServoKitWithMux\<close> on multiplexer channel 1, with CLK high when it starts:
  \<open>fresh_tilt\<close> without a state file, \<open>saved_tilt a m\<close> on a state file that holds
  angle \<open>a\<close> and mode \<open>m\<close>.
\<close>

definition fresh_tilt :: "bool list \<Rightarrow> tilt" where
  "fresh_tilt outcomes =
     tilt_init tilt_default_config no_saved_state
       (Some \<lparr>swm_mux_channel = 1, swm_servo_channel = 0\<rparr>) None False True outcomes"

definition saved_tilt :: "rat \<Rightarrow> mode \<Rightarrow> tilt" where
  "saved_tilt a m =
     tilt_init tilt_default_config \<lparr>last_position = Some a, saved_mode = Some m\<rparr>
       (Some \<lparr>swm_mux_channel = 1, swm_servo_channel = 0\<rparr>) None False True []"

section \<open>Frame lemmas\<close>

lemma perform_fields:
  "current_angle (snd (perform op s)) = current_angle s"
  "encoder_pos (snd (perform op s)) = encoder_pos s"
  "mode (snd (perform op s)) = mode s"
  by (simp_all add: perform_def split: list.splits)

lemma sleep_fields:
  "current_angle (sleep d s) = current_angle s"
  "encoder_pos (sleep d s) = encoder_pos s"
  "mode (sleep d s) = mode s"
  by (simp_all add: sleep_def)

lemma perform_controller_fields:
  "servo_kit (snd (perform op s)) = servo_kit s"
  "mux_bus (snd (perform op s)) = mux_bus s"
  "servo_channel (snd (perform op s)) = servo_channel s"
  "current_mux_channel (snd (perform op s)) = current_mux_channel s"
  by (simp_all add: perform_def split: list.splits)

lemma sleep_controller_fields:
  "servo_kit (sleep d s) = servo_kit s"
  "mux_bus (sleep d s) = mux_bus s"
  "servo_channel (sleep d s) = servo_channel s"
  "current_mux_channel (sleep d s) = current_mux_channel s"
  by (simp_all add: sleep_def)

lemma perform_tilt_fields:
  "gestures (snd (perform op s)) = gestures s"
  "click_count (snd (perform op s)) = click_count s"
  "click_timer (snd (perform op s)) = click_timer s"
  "button_press_time (snd (perform op s)) = button_press_time s"
  "last_clk_state (snd (perform op s)) = last_clk_state s"
  by (simp_all add: perform_def split: list.splits)

lemma sleep_tilt_fields:
  "gestures (sleep d s) = gestures s"
  "click_count (sleep d s) = click_count s"
  "click_timer (sleep d s) = click_timer s"
  "button_press_time (sleep d s) = button_press_time s"
  "last_clk_state (sleep d s) = last_clk_state s"
  by (simp_all add: sleep_def)

lemmas io_frame =
  perform_fields sleep_fields perform_controller_fields sleep_controller_fields
  perform_tilt_fields sleep_tilt_fields

lemma switch_fields:
  "current_angle (snd (switch_mux_channel c s)) = current_angle s"
  "encoder_pos (snd (switch_mux_channel c s)) = encoder_pos s"
  "mode (snd (switch_mux_channel c s)) = mode s"
  "servo_kit (snd (switch_mux_channel c s)) = servo_kit s"
  "mux_bus (snd (switch_mux_channel c s)) = mux_bus s"
  "servo_channel (snd (switch_mux_channel c s)) = servo_channel s"
  by (simp_all add: switch_mux_channel_def Let_def case_prod_beta io_frame)

lemma scoped_fields:
  "current_angle (servo_write_scoped s) = current_angle s"
  "encoder_pos (servo_write_scoped s) = encoder_pos s"
  "mode (servo_write_scoped s) = mode s"
  "servo_kit (servo_write_scoped s) = servo_kit s"
  by (simp_all add: servo_write_scoped_def Let_def case_prod_beta io_frame switch_fields)

lemma set_angle_fields:
  "current_angle (snd (set_angle k a s)) = current_angle s"
  "encoder_pos (snd (set_angle k a s)) = encoder_pos s"
  "mode (snd (set_angle k a s)) = mode s"
  "gestures (snd (set_angle k a s)) = gestures s"
  "click_count (snd (set_angle k a s)) = click_count s"
  "click_timer (snd (set_angle k a s)) = click_timer s"
  "button_press_time (snd (set_angle k a s)) = button_press_time s"
  "last_clk_state (snd (set_angle k a s)) = last_clk_state s"
  by (simp_all add: set_angle_def ensure_mux_channel_def Let_def case_prod_beta io_frame)

lemma set_servo_angle_fields:
  "current_angle (snd (set_servo_angle k n a s)) = current_angle s"
  "encoder_pos (snd (set_servo_angle k n a s)) = encoder_pos s"
  "mode (snd (set_servo_angle k n a s)) = mode s"
  "gestures (snd (set_servo_angle k n a s)) = gestures s"
  "click_count (snd (set_servo_angle k n a s)) = click_count s"
  "click_timer (snd (set_servo_angle k n a s)) = click_timer s"
  "button_press_time (snd (set_servo_angle k n a s)) = button_press_time s"
  "last_clk_state (snd (set_servo_angle k n a s)) = last_clk_state s"
  by (simp_all add: set_servo_angle_def mux_channel_selected_def Let_def case_prod_beta
        io_frame)

lemma update_servo_fields:
  "encoder_pos (snd (update_servo cfg s)) = encoder_pos s"
  "mode (snd (update_servo cfg s)) = mode s"
  "gestures (snd (update_servo cfg s)) = gestures s"
  "click_count (snd (update_servo cfg s)) = click_count s"
  "click_timer (snd (update_servo cfg s)) = click_timer s"
  by (simp_all add: update_servo_def Let_def case_prod_beta io_frame set_angle_fields
        set_servo_angle_fields
      split: option.splits res.splits)

lemma wrapper_frame:
  "fixed_servo (snd (perform op s)) = fixed_servo s"
  "mux_servo (snd (perform op s)) = mux_servo s"
  "kit (snd (perform op s)) = kit s"
  "fixed_servo (sleep d s) = fixed_servo s"
  "mux_servo (sleep d s) = mux_servo s"
  "kit (sleep d s) = kit s"
  "fixed_servo (snd (set_angle k a s)) = fixed_servo s"
  "mux_servo (snd (set_angle k a s)) = mux_servo s"
  "fixed_servo (snd (set_servo_angle k' n a s)) = fixed_servo s"
  "mux_servo (snd (set_servo_angle k' n a s)) = mux_servo s"
  by (simp_all add: perform_def sleep_def set_angle_def ensure_mux_channel_def
        set_servo_angle_def mux_channel_selected_def Let_def case_prod_beta
      split: list.splits)

lemma update_servo_wrappers:
  "fixed_servo (snd (update_servo cfg s)) = fixed_servo s"
  "mux_servo (snd (update_servo cfg s)) = mux_servo s"
  "last_clk_state (snd (update_servo cfg s)) = last_clk_state s"
  by (simp_all add: update_servo_def Let_def case_prod_beta io_frame set_angle_fields
        set_servo_angle_fields wrapper_frame
      split: option.splits res.splits)

lemma update_servo_returns:
  "fixed_servo s \<noteq> None \<or> mux_servo s = None \<Longrightarrow> fst (update_servo cfg s) = Returned ()"
  by (auto simp add: update_servo_def Let_def case_prod_beta split: option.splits)


lemma apply_limits_clamp:
  "apply_limits cfg m x = clamp (effective_min cfg m) (effective_max cfg m) x"
  by (simp add: apply_limits_def effective_min_def effective_max_def)

lemma clamp_bounds: "lo \<le> hi \<Longrightarrow> lo \<le> clamp lo hi x \<and> clamp lo hi x \<le> hi"
  by (simp add: clamp_def)

section \<open>The channel switch\<close>

lemma switch_issued:
  "length (mux_writes (trace (snd (switch_mux_channel c s)))) =
     length (mux_writes (trace s))
       + (if mux_bus s \<and> current_mux_channel s \<noteq> Some c then 1 else 0)"
  by (simp add: switch_mux_channel_def perform_def sleep_def mux_writes_def
        split: list.splits)

lemma switch_acknowledged:
  "length (acked_mux_writes (trace (snd (switch_mux_channel c s)))) =
     length (acked_mux_writes (trace s))
       + (if mux_bus s \<and> current_mux_channel s \<noteq> Some c \<and> fst (switch_mux_channel c s)
          then 1 else 0)"
  by (simp add: switch_mux_channel_def perform_def sleep_def mux_writes_def
        acked_mux_writes_def split: list.splits)

lemma switch_cache:
  "current_mux_channel (snd (switch_mux_channel c s)) =
     (if mux_bus s \<and> fst (switch_mux_channel c s) then Some c else current_mux_channel s)"
  by (simp add: switch_mux_channel_def perform_def sleep_def split: list.splits)

lemma switch_refused:
  "\<not> fst (switch_mux_channel c s) \<Longrightarrow> mux_bus s \<and> current_mux_channel s \<noteq> Some c"
  by (simp add: switch_mux_channel_def split: if_splits)

lemma switch_again:
  assumes "fst (switch_mux_channel c s)"
  shows "switch_mux_channel c (snd (switch_mux_channel c s)) =
    (True, snd (switch_mux_channel c s))"
proof (cases "mux_bus s")
  case True
  with assms have "current_mux_channel (snd (switch_mux_channel c s)) = Some c"
    by (simp add: switch_cache)
  then show ?thesis
    by (simp add: switch_mux_channel_def)
next
  case False
  then show ?thesis
    by (simp add: switch_mux_channel_def)
qed

text \<open>
  Claim C2, as the code has it. When the cached channel already equals the target,
  \<open>switch_mux_channel\<close> returns success and leaves the whole state, the trace of
  hardware operations included, as it was: no select write is issued. Of two consecutive
  calls with the same channel, when the first succeeds the second is such a call without
  a write, so that the two together issue at most one select write. When the write of the
  first call fails the cache is not updated and the second call writes again: two select
  writes are issued, of which at most one is acknowledged.
\<close>

theorem switch_same_channel_idempotent:
  "(current_mux_channel s = Some c \<longrightarrow> switch_mux_channel c s = (True, s))
   \<and> (let (r1, s1) = switch_mux_channel c s; (r2, s2) = switch_mux_channel c s1 in
        length (acked_mux_writes (trace s2)) \<le> length (acked_mux_writes (trace s)) + 1
        \<and> (r1 \<longrightarrow> r2 \<and> length (mux_writes (trace s2)) \<le> length (mux_writes (trace s)) + 1)
        \<and> (r1 \<longrightarrow> switch_mux_channel c s1 = (True, s1))
        \<and> (\<not> r1 \<longrightarrow> current_mux_channel s1 = current_mux_channel s
              \<and> length (mux_writes (trace s2)) = length (mux_writes (trace s)) + 2))"
proof -
  let ?s1 = "snd (switch_mux_channel c s)"
  let ?s2 = "snd (switch_mux_channel c ?s1)"
  have cached: "current_mux_channel s = Some c \<longrightarrow> switch_mux_channel c s = (True, s)"
    by (simp add: switch_mux_channel_def)
  have acknowledged:
    "length (acked_mux_writes (trace ?s2)) \<le> length (acked_mux_writes (trace s)) + 1"
    by (simp add: switch_acknowledged switch_cache switch_fields)
  have succeeded: "switch_mux_channel c ?s1 = (True, ?s1)"
    if "fst (switch_mux_channel c s)"
    using that by (rule switch_again)
  have once: "length (mux_writes (trace ?s2)) \<le> length (mux_writes (trace s)) + 1"
    if "fst (switch_mux_channel c s)"
    using that by (simp add: switch_again switch_issued)
  have twice: "current_mux_channel ?s1 = current_mux_channel s
      \<and> length (mux_writes (trace ?s2)) = length (mux_writes (trace s)) + 2"
    if "\<not> fst (switch_mux_channel c s)"
    using that switch_refused [OF that]
    by (simp add: switch_issued switch_cache switch_fields)
  from cached acknowledged succeeded once twice show ?thesis
    by (simp add: Let_def case_prod_beta)
qed

theorem switch_same_channel_idempotent_witness:
  "current_mux_channel (booted []) = Some OLED_CHANNEL
   \<and> switch_mux_channel OLED_CHANNEL (booted []) = (True, booted [])
   \<and> fst (switch_mux_channel SERVO_CHANNEL (booted []))
   \<and> length (mux_writes (trace (snd (switch_mux_channel SERVO_CHANNEL
         (snd (switch_mux_channel SERVO_CHANNEL (booted [])))))))
       = length (mux_writes (trace (booted []))) + 1
   \<and> \<not> fst (switch_mux_channel SERVO_CHANNEL
            (booted [True, True, True, True, True, True, False, False]))
   \<and> length (mux_writes (trace (snd (switch_mux_channel SERVO_CHANNEL
         (snd (switch_mux_channel SERVO_CHANNEL
            (booted [True, True, True, True, True, True, False, False])))))))
       = length (mux_writes
           (trace (booted [True, True, True, True, True, True, False, False]))) + 2"
proof -
  have cached: "current_mux_channel (booted []) = Some OLED_CHANNEL"
    by code_simp
  have first: "fst (switch_mux_channel SERVO_CHANNEL (booted []))"
    by code_simp
  have count: "length (mux_writes (trace (snd (switch_mux_channel SERVO_CHANNEL
         (snd (switch_mux_channel SERVO_CHANNEL (booted [])))))))
       = length (mux_writes (trace (booted []))) + 1"
    by code_simp
  have refused: "\<not> fst (switch_mux_channel SERVO_CHANNEL
            (booted [True, True, True, True, True, True, False, False]))"
    by code_simp
  have again: "length (mux_writes (trace (snd (switch_mux_channel SERVO_CHANNEL
         (snd (switch_mux_channel SERVO_CHANNEL
            (booted [True, True, True, True, True, True, False, False])))))))
       = length (mux_writes
           (trace (booted [True, True, True, True, True, True, False, False]))) + 2"
    using refused
      switch_same_channel_idempotent
        [of "booted [True, True, True, True, True, True, False, False]" SERVO_CHANNEL]
    by (simp add: Let_def case_prod_beta)
  show ?thesis
    using cached first count refused again
      switch_same_channel_idempotent [of "booted []" OLED_CHANNEL]
    by simp
qed

text \<open>
  The claim as it is worded fails when the first write is refused: the first call
  returns \<open>False\<close>, the second writes again and succeeds, and the two calls have issued
  two select writes.
\<close>

theorem switch_twice_two_writes_counterexample:
  "fst (switch_mux_channel SERVO_CHANNEL
          (booted [True, True, True, True, True, True, False, True])) = False
   \<and> fst (switch_mux_channel SERVO_CHANNEL (snd (switch_mux_channel SERVO_CHANNEL
          (booted [True, True, True, True, True, True, False, True])))) = True
   \<and> length (mux_writes (trace (snd (switch_mux_channel SERVO_CHANNEL
          (snd (switch_mux_channel SERVO_CHANNEL
             (booted [True, True, True, True, True, True, False, True])))))))
       = length (mux_writes
           (trace (booted [True, True, True, True, True, True, False, True]))) + 2"
  by code_simp

text \<open>
  Claim C3, as the code has it. With a multiplexer present and a target other than the
  cached channel, \<open>switch_mux_channel\<close> issues one select write and does not retry: when
  that write fails it returns \<open>False\<close>, raises nothing, and the cached channel is what
  it was. The loop of three attempts, 10 ms apart, is that of
  \<open>ResilientMuxOLED._ensure_channel\<close>: when all three writes fail it returns
  \<open>False\<close> after exactly three select writes and two sleeps, and the time of the last
  success is not touched.
\<close>

theorem switch_failure_single_attempt:
  "(mux_bus s \<and> current_mux_channel s \<noteq> Some c \<and> script s = False # rest \<longrightarrow>
      switch_mux_channel c s =
        (False, s\<lparr>script := rest, trace := trace s @ [(MuxSelect (2 ^ c), False)]\<rparr>)
      \<and> current_mux_channel (snd (switch_mux_channel c s)) = current_mux_channel s)
   \<and> (mux_available r \<and> (force \<or> recovery_interval r \<le> t - last_ensure_time r)
        \<and> script r = False # False # False # rest' \<longrightarrow>
      ensure_channel force t r =
        (False, r\<lparr>script := rest', trace := trace r @
           [(MuxSelect (2 ^ rmo_mux_channel r), False), (Sleep (10 / 1000), True),
            (MuxSelect (2 ^ rmo_mux_channel r), False), (Sleep (10 / 1000), True),
            (MuxSelect (2 ^ rmo_mux_channel r), False)]\<rparr>))"
  by (auto simp add: switch_mux_channel_def ensure_channel_def perform_def sleep_def
        numeral_3_eq_3)

theorem switch_failure_single_attempt_witness:
  "mux_bus (booted [True, True, True, True, True, True, False, True])
   \<and> current_mux_channel (booted [True, True, True, True, True, True, False, True])
        \<noteq> Some SERVO_CHANNEL
   \<and> script (booted [True, True, True, True, True, True, False, True]) = [False, True]
   \<and> fst (switch_mux_channel SERVO_CHANNEL
             (booted [True, True, True, True, True, True, False, True])) = False
   \<and> current_mux_channel (snd (switch_mux_channel SERVO_CHANNEL
         (booted [True, True, True, True, True, True, False, True]))) = Some OLED_CHANNEL
   \<and> fst (ensure_channel True 5
             \<lparr>script = [False, False, False], trace = [], rmo_mux_channel = 0,
              recovery_interval = 1 / 2, last_ensure_time = 0, operation_count = 0,
              mux_available = True\<rparr>) = False"
proof -
  have unified:
    "mux_bus (booted [True, True, True, True, True, True, False, True])
     \<and> current_mux_channel (booted [True, True, True, True, True, True, False, True])
          \<noteq> Some SERVO_CHANNEL
     \<and> script (booted [True, True, True, True, True, True, False, True]) = [False, True]
     \<and> current_mux_channel (booted [True, True, True, True, True, True, False, True])
          = Some OLED_CHANNEL"
    by code_simp
  show ?thesis
    using unified
      switch_failure_single_attempt
        [of "booted [True, True, True, True, True, True, False, True]" SERVO_CHANNEL "[True]"
            "\<lparr>script = [False, False, False], trace = [], rmo_mux_channel = 0,
              recovery_interval = 1 / 2, last_ensure_time = 0, operation_count = 0,
              mux_available = True\<rparr>" True 5 "[]"]
    by (simp add: OLED_CHANNEL_def SERVO_CHANNEL_def)
qed

text \<open>
  The claim as it is worded fails on the unified controller: with the first select write
  refused and the next one due to succeed, \<open>switch_mux_channel\<close> gives up after one
  attempt.
\<close>

theorem switch_no_retry_counterexample:
  "fst (switch_mux_channel SERVO_CHANNEL
          (booted [True, True, True, True, True, True, False, True])) = False
   \<and> length (mux_writes (trace (snd (switch_mux_channel SERVO_CHANNEL
          (booted [True, True, True, True, True, True, False, True])))))
       = length (mux_writes (trace (booted [True, True, True, True, True, True, False, True]))) + 1
   \<and> script (snd (switch_mux_channel SERVO_CHANNEL
          (booted [True, True, True, True, True, True, False, True]))) = [True]"
  by code_simp

section \<open>Scoped access to the servo channel\<close>

lemma scoped_unified_release:
  assumes "mux_bus s" and "fst (switch_mux_channel SERVO_CHANNEL s)"
  shows "fst (last (mux_writes (trace (servo_write_scoped s)))) = MuxSelect (2 ^ OLED_CHANNEL)
     \<and> (snd (last (mux_writes (trace (servo_write_scoped s)))) \<longrightarrow>
          current_mux_channel (servo_write_scoped s) = Some OLED_CHANNEL
          \<and> mux_register (trace (servo_write_scoped s)) = Some (2 ^ OLED_CHANNEL))"
  using assms
  by (auto simp add: servo_write_scoped_def switch_mux_channel_def perform_def sleep_def
        mux_writes_def acked_mux_writes_def mux_register_def OLED_CHANNEL_def
        SERVO_CHANNEL_def Let_def
      split: list.splits prod.splits if_splits)

lemma scoped_fixed_release:
  "fst (last (mux_writes (trace (snd (set_angle k a w))))) = MuxSelect (2 ^ 0)
   \<and> (snd (last (mux_writes (trace (snd (set_angle k a w))))) \<longrightarrow>
        mux_register (trace (snd (set_angle k a w))) = Some (2 ^ 0))"
  by (auto simp add: set_angle_def ensure_mux_channel_def perform_def sleep_def
        mux_writes_def acked_mux_writes_def mux_register_def Let_def
      split: list.splits prod.splits if_splits)

lemma scoped_aware_release:
  assumes "mak_mux_bus k" and "mak_kit k"
  shows "fst (last (mux_writes (trace (snd (set_servo_angle k n a w))))) = MuxSelect (2 ^ 0)
     \<and> (snd (last (mux_writes (trace (snd (set_servo_angle k n a w))))) \<longrightarrow>
          mux_register (trace (snd (set_servo_angle k n a w))) = Some (2 ^ 0))"
  using assms
  by (auto simp add: set_servo_angle_def mux_channel_selected_def perform_def sleep_def
        mux_writes_def acked_mux_writes_def mux_register_def Let_def
      split: list.splits prod.splits if_splits)

text \<open>
  Claim C1, as the code has it. In each of the three scoped accesses (the unified
  controller's switch, write and switch back; \<open>ServoKitWithMux.set_angle\<close>;
  \<open>MuxAwareServoKit.set_servo_angle\<close> under \<open>mux_channel_selected\<close>), with a
  multiplexer present and the scope entered, the last multiplexer operation of the scope
  is the select of the display channel, whatever the outcome of the angle write. The
  return is an attempt: when that select is acknowledged the multiplexer is on the display
  channel after the scope, and so is the cached channel of the unified controller.
\<close>

theorem scoped_access_releases_to_idle:
  "(mux_bus s \<and> fst (switch_mux_channel SERVO_CHANNEL s) \<longrightarrow>
      fst (last (mux_writes (trace (servo_write_scoped s)))) = MuxSelect (2 ^ OLED_CHANNEL)
      \<and> (snd (last (mux_writes (trace (servo_write_scoped s)))) \<longrightarrow>
           current_mux_channel (servo_write_scoped s) = Some OLED_CHANNEL
           \<and> mux_register (trace (servo_write_scoped s)) = Some (2 ^ OLED_CHANNEL)))
   \<and> fst (last (mux_writes (trace (snd (set_angle k a w))))) = MuxSelect (2 ^ 0)
   \<and> (snd (last (mux_writes (trace (snd (set_angle k a w))))) \<longrightarrow>
        mux_register (trace (snd (set_angle k a w))) = Some (2 ^ 0))
   \<and> (mak_mux_bus km \<and> mak_kit km \<longrightarrow>
        fst (last (mux_writes (trace (snd (set_servo_angle km n b v))))) = MuxSelect (2 ^ 0)
        \<and> (snd (last (mux_writes (trace (snd (set_servo_angle km n b v))))) \<longrightarrow>
             mux_register (trace (snd (set_servo_angle km n b v))) = Some (2 ^ 0)))"
  using scoped_unified_release [of s] scoped_fixed_release [of k a w]
    scoped_aware_release [of km n b v]
  by blast

theorem scoped_access_releases_to_idle_witness:
  "mux_bus (booted [True, True, True, True, True, True, True, False])
   \<and> fst (switch_mux_channel SERVO_CHANNEL
         (booted [True, True, True, True, True, True, True, False]))
   \<and> snd (last (mux_writes (trace (servo_write_scoped
        (booted [True, True, True, True, True, True, True, False])))))
   \<and> current_mux_channel (servo_write_scoped
        (booted [True, True, True, True, True, True, True, False]))
       = Some OLED_CHANNEL
   \<and> snd (last (mux_writes (trace (snd (set_angle
        \<lparr>swm_mux_channel = 1, swm_servo_channel = 0\<rparr> 90
        \<lparr>script = [True, False, True], trace = []\<rparr>)))))
   \<and> mux_register (trace (snd (set_angle
        \<lparr>swm_mux_channel = 1, swm_servo_channel = 0\<rparr> 90
        \<lparr>script = [True, False, True], trace = []\<rparr>))) = Some 1
   \<and> mak_mux_bus \<lparr>mak_mux_channel = 1, mak_kit = True, mak_mux_bus = True\<rparr>
   \<and> mak_kit \<lparr>mak_mux_channel = 1, mak_kit = True, mak_mux_bus = True\<rparr>
   \<and> snd (last (mux_writes (trace (snd (set_servo_angle
        \<lparr>mak_mux_channel = 1, mak_kit = True, mak_mux_bus = True\<rparr> 0 90
        \<lparr>script = [True, False, True], trace = []\<rparr>)))))
   \<and> mux_register (trace (snd (set_servo_angle
        \<lparr>mak_mux_channel = 1, mak_kit = True, mak_mux_bus = True\<rparr> 0 90
        \<lparr>script = [True, False, True], trace = []\<rparr>))) = Some 1"
proof -
  have entered:
    "mux_bus (booted [True, True, True, True, True, True, True, False])
     \<and> fst (switch_mux_channel SERVO_CHANNEL
          (booted [True, True, True, True, True, True, True, False]))"
    by code_simp
  have acked:
    "snd (last (mux_writes (trace (servo_write_scoped
        (booted [True, True, True, True, True, True, True, False])))))
     \<and> snd (last (mux_writes (trace (snd (set_angle
        \<lparr>swm_mux_channel = 1, swm_servo_channel = 0\<rparr> 90
        \<lparr>script = [True, False, True], trace = []\<rparr>)))))
     \<and> snd (last (mux_writes (trace (snd (set_servo_angle
        \<lparr>mak_mux_channel = 1, mak_kit = True, mak_mux_bus = True\<rparr> 0 90
        \<lparr>script = [True, False, True], trace = []\<rparr>)))))"
    by code_simp
  show ?thesis
    using entered acked
      scoped_access_releases_to_idle
        [of "booted [True, True, True, True, True, True, True, False]"
            "\<lparr>swm_mux_channel = 1, swm_servo_channel = 0\<rparr>" 90
            "\<lparr>script = [True, False, True], trace = []\<rparr>"
            "\<lparr>mak_mux_channel = 1, mak_kit = True, mak_mux_bus = True\<rparr>" 0 90
            "\<lparr>script = [True, False, True], trace = []\<rparr>"]
    by (simp add: OLED_CHANNEL_def)
qed

text \<open>
  The claim as it is worded fails when the return select is refused: a rotation of three
  steps whose angle write succeeds and whose switch back to the display fails leaves
  both the cached channel and the multiplexer on the servo channel.
\<close>

theorem scoped_release_refused_counterexample:
  "current_mux_channel (update_servo_angle unified_default_config 3
      (booted [True, True, True, True, True, True, True, True, False])) = Some SERVO_CHANNEL
   \<and> current_mux_channel (update_servo_angle unified_default_config 3
      (booted [True, True, True, True, True, True, True, True, False])) \<noteq> Some OLED_CHANNEL
   \<and> mux_register (trace (update_servo_angle unified_default_config 3
      (booted [True, True, True, True, True, True, True, True, False])))
       = Some (2 ^ SERVO_CHANNEL)"
  by code_simp

section \<open>Rotations and the angle\<close>

lemma update_servo_angle_mode: "mode (update_servo_angle cfg d s) = mode s"
  by (simp add: update_servo_angle_def Let_def scoped_fields)

lemma update_servo_angle_kit: "servo_kit (update_servo_angle cfg d s) = servo_kit s"
  by (simp add: update_servo_angle_def Let_def scoped_fields)

lemma update_servo_angle_pos:
  "servo_kit s \<Longrightarrow> encoder_pos (update_servo_angle cfg d s) = encoder_pos s + d"
  by (simp add: update_servo_angle_def Let_def scoped_fields)

lemma update_servo_angle_value:
  "servo_kit s \<Longrightarrow>
     current_angle (update_servo_angle cfg d s) =
       clamp (effective_min cfg (mode s)) (effective_max cfg (mode s))
         (center_angle cfg + of_int (encoder_pos s + d) * sensitivity cfg (mode s))"
  by (simp add: update_servo_angle_def Let_def scoped_fields apply_limits_clamp)

lemma process_rotation:
  "process_event cfg (EncoderEvent ''rotation'' d) s = update_servo_angle cfg d s"
  by (simp add: process_event_def EncoderEvent_def)

lemma drain_append: "drain cfg (evs @ evs') s = drain cfg evs' (drain cfg evs s)"
  by (induction evs arbitrary: s) simp_all

lemma drain_rotations_fields:
  "servo_kit s \<Longrightarrow>
     servo_kit (drain cfg (map (EncoderEvent ''rotation'') ds) s)
     \<and> mode (drain cfg (map (EncoderEvent ''rotation'') ds) s) = mode s
     \<and> encoder_pos (drain cfg (map (EncoderEvent ''rotation'') ds) s)
         = encoder_pos s + sum_list ds"
proof (induction ds arbitrary: s)
  case Nil
  then show ?case by simp
next
  case (Cons d ds)
  have kit: "servo_kit (update_servo_angle cfg d s)"
    using Cons.prems by (simp add: update_servo_angle_kit)
  from Cons.IH [OF kit] show ?case
    using Cons.prems
    by (simp add: process_rotation update_servo_angle_mode update_servo_angle_pos)
qed

lemma drain_rotations_angle:
  assumes "servo_kit s" and "ds \<noteq> []"
  shows "current_angle (drain cfg (map (EncoderEvent ''rotation'') ds) s) =
     clamp (effective_min cfg (mode s)) (effective_max cfg (mode s))
       (center_angle cfg + of_int (encoder_pos s + sum_list ds) * sensitivity cfg (mode s))"
proof -
  obtain front d where split: "ds = front @ [d]"
    using assms(2) by (metis rev_exhaust)
  let ?before = "drain cfg (map (EncoderEvent ''rotation'') front) s"
  have before: "servo_kit ?before" "mode ?before = mode s"
    "encoder_pos ?before = encoder_pos s + sum_list front"
    using drain_rotations_fields [OF assms(1), of cfg front] by simp_all
  have "drain cfg (map (EncoderEvent ''rotation'') ds) s = update_servo_angle cfg d ?before"
    by (simp add: split drain_append process_rotation)
  then show ?thesis
    using before by (simp add: update_servo_angle_value split add.assoc)
qed

text \<open>
  Claim C4, as the code has it. In the unified controller with the servo initialised,
  starting from encoder position 0 under a fixed mode, after each of the rotation events
  \<open>d1 .. dn\<close> (every non-empty prefix) the angle is the clamped image of the sum of the
  deltas so far, \<open>clamp (center_angle + sum * sensitivity)\<close> with the bounds of the mode;
  on the default configuration a rotation of +3 in Direct mode gives 175. That is what
  \<open>ScreenTiltController.update_servo\<close> computes from its encoder position, too.
\<close>

theorem rotations_give_clamped_angle:
  "(servo_kit s \<and> encoder_pos s = 0 \<longrightarrow>
      (\<forall>n. 0 < n \<and> n \<le> length ds \<longrightarrow>
         current_angle (drain cfg (map (EncoderEvent ''rotation'') (take n ds)) s) =
           clamp (effective_min cfg (mode s)) (effective_max cfg (mode s))
             (center_angle cfg + of_int (sum_list (take n ds)) * sensitivity cfg (mode s))))
   \<and> current_angle (process_encoder_events unified_default_config
         ((booted [])\<lparr>encoder_queue := [EncoderEvent ''rotation'' 3]\<rparr>)) = 175
   \<and> current_angle (snd (update_servo cfg' t)) =
        clamp (effective_min cfg' (mode t)) (effective_max cfg' (mode t))
          (center_angle cfg' + of_int (encoder_pos t) * sensitivity cfg' (mode t))"
proof (intro conjI impI allI)
  fix n
  assume start: "servo_kit s \<and> encoder_pos s = 0" and n: "0 < n \<and> n \<le> length ds"
  then have "take n ds \<noteq> []" by auto
  with start show "current_angle (drain cfg (map (EncoderEvent ''rotation'') (take n ds)) s) =
      clamp (effective_min cfg (mode s)) (effective_max cfg (mode s))
        (center_angle cfg + of_int (sum_list (take n ds)) * sensitivity cfg (mode s))"
    using drain_rotations_angle [of s "take n ds" cfg] by simp
next
  show "current_angle (process_encoder_events unified_default_config
         ((booted [])\<lparr>encoder_queue := [EncoderEvent ''rotation'' 3]\<rparr>)) = 175"
    by code_simp
next
  show "current_angle (snd (update_servo cfg' t)) =
        clamp (effective_min cfg' (mode t)) (effective_max cfg' (mode t))
          (center_angle cfg' + of_int (encoder_pos t) * sensitivity cfg' (mode t))"
    by (simp add: update_servo_def Let_def case_prod_beta io_frame set_angle_fields
          set_servo_angle_fields apply_limits_clamp split: option.splits res.splits)
qed

theorem rotations_give_clamped_angle_witness:
  "servo_kit (booted []) \<and> encoder_pos (booted []) = 0
   \<and> (0::nat) < 2 \<and> (2::nat) \<le> length [1, 1, - 1 :: int]
   \<and> current_angle (drain unified_default_config
        (map (EncoderEvent ''rotation'') (take 2 [1, 1, - 1])) (booted [])) = 165"
proof -
  have start: "servo_kit (booted []) \<and> encoder_pos (booted []) = 0"
    by code_simp
  have bound: "clamp (effective_min unified_default_config (mode (booted [])))
          (effective_max unified_default_config (mode (booted [])))
          (center_angle unified_default_config
             + of_int (sum_list (take 2 [1, 1, - 1])) * sensitivity unified_default_config (mode (booted [])))
        = 165"
    by code_simp
  show ?thesis
    using start bound
      rotations_give_clamped_angle [of "booted []" "[1, 1, - 1]" unified_default_config,
        THEN conjunct1, rule_format, of 2]
    by simp
qed

text \<open>
  The claim as it is worded fails when the servo did not initialise: the unified
  controller then ignores rotations, and a rotation of +3 leaves the angle at 145.
\<close>

theorem rotation_without_servo_counterexample:
  "servo_kit (booted [True, True, True, False]) = False
   \<and> mode (booted [True, True, True, False]) = Direct
   \<and> encoder_pos (booted [True, True, True, False]) = 0
   \<and> current_angle (process_encoder_events unified_default_config
        ((booted [True, True, True, False])\<lparr>encoder_queue := [EncoderEvent ''rotation'' 3]\<rparr>))
       = 145
   \<and> clamp (effective_min unified_default_config Direct)
        (effective_max unified_default_config Direct)
        (center_angle unified_default_config
           + of_int (sum_list [3]) * sensitivity unified_default_config Direct) = 175"
  by code_simp

section \<open>The mode in the unified controller\<close>

lemma process_event_mode: "mode (process_event cfg event s) = mode s"
  by (simp add: process_event_def update_servo_angle_mode save_state_def perform_fields)

lemma drain_mode: "mode (drain cfg evs s) = mode s"
  by (induction evs arbitrary: s) (simp_all add: process_event_mode)

text \<open>
  Claim C10. \<open>process_encoder_events\<close> never changes the mode of the unified
  controller: an event whose type is none of \<open>rotation\<close>, \<open>click\<close> and
  \<open>long_press\<close>, a \<open>double_click\<close> in particular, is taken off the queue and changes
  nothing, and the three types handled leave the mode as it was.
\<close>

theorem process_events_keep_mode:
  "mode (process_encoder_events cfg s) = mode s
   \<and> (etype event \<notin> {''rotation'', ''click'', ''long_press''} \<longrightarrow>
        process_event cfg event s = s)
   \<and> process_encoder_events cfg (s\<lparr>encoder_queue := [EncoderEvent ''double_click'' 0]\<rparr>)
       = s\<lparr>encoder_queue := []\<rparr>"
  by (simp add: process_encoder_events_def drain_mode process_event_def EncoderEvent_def)

theorem process_events_keep_mode_witness:
  "etype (EncoderEvent ''double_click'' 0) \<notin> {''rotation'', ''click'', ''long_press''}
   \<and> process_event unified_default_config (EncoderEvent ''double_click'' 0) (booted [])
       = booted []
   \<and> mode (process_encoder_events unified_default_config
        ((booted [])\<lparr>encoder_queue :=
           [EncoderEvent ''rotation'' 1, EncoderEvent ''double_click'' 0,
            EncoderEvent ''click'' 0, EncoderEvent ''long_press'' 0]\<rparr>)) = Direct"
proof -
  have other: "etype (EncoderEvent ''double_click'' 0) \<notin> {''rotation'', ''click'', ''long_press''}"
    by (simp add: EncoderEvent_def)
  have start: "mode ((booted [])\<lparr>encoder_queue :=
           [EncoderEvent ''rotation'' 1, EncoderEvent ''double_click'' 0,
            EncoderEvent ''click'' 0, EncoderEvent ''long_press'' 0]\<rparr>) = Direct"
    by code_simp
  show ?thesis
    using other start
      process_events_keep_mode [of unified_default_config
        "(booted [])\<lparr>encoder_queue :=
           [EncoderEvent ''rotation'' 1, EncoderEvent ''double_click'' 0,
            EncoderEvent ''click'' 0, EncoderEvent ''long_press'' 0]\<rparr>"
        "EncoderEvent ''double_click'' 0"]
      process_events_keep_mode [of unified_default_config "booted []"
        "EncoderEvent ''double_click'' 0"]
    by simp
qed

section \<open>Decoding the rotation\<close>

lemma poll_rotation_edge:
  "poll_rotation previous smp =
     map (EncoderEvent ''rotation'') (sample_rotation previous smp)"
  by (auto simp add: poll_rotation_def sample_rotation_def edge_rotation_def)

lemma rotation_values_append:
  "rotation_values (xs @ ys) = rotation_values xs @ rotation_values ys"
  by (simp add: rotation_values_def)

lemma rotation_values_empty: "rotation_values [] = []"
  by (simp add: rotation_values_def)

lemma rotation_values_rotations:
  "rotation_values (map (EncoderEvent ''rotation'') ds) = ds"
  by (induction ds) (simp_all add: rotation_values_def EncoderEvent_def)

lemma rotation_values_button: "rotation_values (snd (poll_button press_time smp)) = []"
  by (simp add: poll_button_def rotation_values_def EncoderEvent_def Let_def)

lemma polling_rotations:
  "rotation_values (encoder_polling_thread samples previous press_time queue) =
     rotation_values queue
       @ concat (map2 sample_rotation (previous # map clk samples) samples)"
proof (induction samples arbitrary: previous press_time queue)
  case Nil
  then show ?case by simp
next
  case (Cons smp samples)
  show ?case
    by (simp add: Cons.IH case_prod_beta rotation_values_append poll_rotation_edge
          rotation_values_rotations rotation_values_button)
qed

lemma check_encoder_state:
  "snd (check_encoder cfg clk_level dt_level t) =
     (if clk_level \<noteq> last_clk_state t \<and> clk_level = False then
        (let t1 = (if dt_level \<noteq> clk_level then t\<lparr>encoder_pos := encoder_pos t + 1\<rparr>
                   else t\<lparr>encoder_pos := encoder_pos t - 1\<rparr>)
         in case fst (update_servo cfg t1) of
              Raised \<Rightarrow> snd (update_servo cfg t1)
            | Returned u \<Rightarrow> (snd (update_servo cfg t1))\<lparr>last_clk_state := clk_level\<rparr>)
      else t\<lparr>last_clk_state := clk_level\<rparr>)"
  by (simp add: check_encoder_def Let_def split: prod.splits res.splits)

lemma check_encoder_step:
  "encoder_pos (snd (check_encoder cfg clk_level dt_level t)) =
     encoder_pos t + sum_list (edge_rotation (last_clk_state t) clk_level dt_level)"
  by (auto simp add: check_encoder_state edge_rotation_def Let_def update_servo_fields
        split: res.splits)

lemma check_encoder_wrappers:
  "fixed_servo (snd (check_encoder cfg clk_level dt_level t)) = fixed_servo t"
  "mux_servo (snd (check_encoder cfg clk_level dt_level t)) = mux_servo t"
  by (auto simp add: check_encoder_state Let_def update_servo_wrappers split: res.splits)

lemma check_encoder_result:
  "fst (check_encoder cfg clk_level dt_level t) =
     (if clk_level \<noteq> last_clk_state t \<and> clk_level = False then
        fst (update_servo cfg
               (if dt_level \<noteq> clk_level then t\<lparr>encoder_pos := encoder_pos t + 1\<rparr>
                else t\<lparr>encoder_pos := encoder_pos t - 1\<rparr>))
      else Returned ())"
  by (simp add: check_encoder_def Let_def split: prod.splits res.splits)

lemma check_encoder_returns:
  assumes "fixed_servo t \<noteq> None \<or> mux_servo t = None"
  shows "fst (check_encoder cfg clk_level dt_level t) = Returned ()"
proof -
  have "fst (update_servo cfg (t\<lparr>encoder_pos := p\<rparr>)) = Returned ()" for p
    using assms by (intro update_servo_returns) simp
  then show ?thesis
    by (simp add: check_encoder_result)
qed

lemma check_encoder_stores:
  "fst (check_encoder cfg clk_level dt_level t) = Returned () \<Longrightarrow>
     last_clk_state (snd (check_encoder cfg clk_level dt_level t)) = clk_level"
  by (auto simp add: check_encoder_state check_encoder_result Let_def
        split: res.splits if_splits)

lemma run_counts_edges:
  "fst (run cfg samples t) = Returned () \<Longrightarrow>
     encoder_pos (snd (run cfg samples t)) =
       encoder_pos t
         + sum_list (concat (map2 (\<lambda>previous (c, d). edge_rotation previous c d)
                              (last_clk_state t # map fst samples) samples))
     \<and> last_clk_state (snd (run cfg samples t)) = last (last_clk_state t # map fst samples)"
proof (induction samples arbitrary: t)
  case Nil
  then show ?case by simp
next
  case (Cons smp samples)
  obtain c d where smp: "smp = (c, d)" by (cases smp)
  let ?step = "check_encoder cfg c d t"
  from Cons.prems smp have returned: "fst ?step = Returned ()"
    by (auto split: prod.splits res.splits)
  with Cons.prems smp have rest: "fst (run cfg samples (snd ?step)) = Returned ()"
    by (auto split: prod.splits res.splits)
  from returned have same: "run cfg (smp # samples) t = run cfg samples (snd ?step)"
    by (auto simp add: smp split: prod.splits res.splits)
  from Cons.IH [OF rest] show ?case
    unfolding same
    by (simp add: smp check_encoder_step check_encoder_stores [OF returned] add.assoc)
qed

lemma run_returns:
  "fixed_servo t \<noteq> None \<or> mux_servo t = None \<Longrightarrow> fst (run cfg samples t) = Returned ()"
proof (induction samples arbitrary: t)
  case Nil
  then show ?case by simp
next
  case (Cons smp samples)
  obtain c d where smp: "smp = (c, d)" by (cases smp)
  let ?step = "check_encoder cfg c d t"
  from Cons.prems have returned: "fst ?step = Returned ()"
    by (rule check_encoder_returns)
  from Cons.prems have "fixed_servo (snd ?step) \<noteq> None \<or> mux_servo (snd ?step) = None"
    by (simp add: check_encoder_wrappers)
  from Cons.IH [OF this] returned show ?case
    by (auto simp add: smp split: prod.splits res.splits)
qed

text \<open>
  Claim C9. Levels are the logical levels that the code reads (\<open>is_pressed\<close>). In
  the polling thread of the unified controller one iteration puts one rotation event when
  CLK was high at the previous sample and is low now, with value +1 when DT differs from
  the new level of CLK and -1 otherwise, and puts no rotation event on any other pair of
  samples; over a run of samples the rotation events put are exactly those of the
  consecutive pairs, in order. \<open>ScreenTiltController.check_encoder\<close> moves its encoder
  position by the same step and, when it returns, stores the level of CLK it read; so
  over a run of its loop that returns, the encoder position moves by the steps of the
  consecutive pairs of samples, each falling edge counted once. The loop always returns
  when the servo is not driven through \<open>MuxAwareServoKit\<close>.
\<close>

theorem rotation_on_falling_clk_edge:
  "poll_rotation previous smp =
     (if previous \<and> \<not> clk smp
      then [EncoderEvent ''rotation'' (if dt smp \<noteq> clk smp then 1 else - 1)]
      else [])
   \<and> rotation_values (encoder_polling_thread samples previous press_time []) =
        concat (map2 sample_rotation (previous # map clk samples) samples)
   \<and> encoder_pos (snd (check_encoder cfg clk_level dt_level t)) =
        encoder_pos t + sum_list (edge_rotation (last_clk_state t) clk_level dt_level)
   \<and> (fst (check_encoder cfg clk_level dt_level t) = Returned () \<longrightarrow>
        last_clk_state (snd (check_encoder cfg clk_level dt_level t)) = clk_level)
   \<and> (fst (run cfg levels t) = Returned () \<longrightarrow>
        encoder_pos (snd (run cfg levels t)) =
          encoder_pos t
            + sum_list (concat (map2 (\<lambda>previous (c, d). edge_rotation previous c d)
                                 (last_clk_state t # map fst levels) levels))
        \<and> last_clk_state (snd (run cfg levels t)) = last (last_clk_state t # map fst levels))
   \<and> (fixed_servo t \<noteq> None \<or> mux_servo t = None \<longrightarrow> fst (run cfg levels t) = Returned ())"
proof (intro conjI impI)
  show "poll_rotation previous smp =
     (if previous \<and> \<not> clk smp
      then [EncoderEvent ''rotation'' (if dt smp \<noteq> clk smp then 1 else - 1)]
      else [])"
    by (auto simp add: poll_rotation_def)
next
  show "rotation_values (encoder_polling_thread samples previous press_time []) =
        concat (map2 sample_rotation (previous # map clk samples) samples)"
    by (simp add: polling_rotations rotation_values_empty)
next
  show "encoder_pos (snd (check_encoder cfg clk_level dt_level t)) =
        encoder_pos t + sum_list (edge_rotation (last_clk_state t) clk_level dt_level)"
    by (simp add: check_encoder_step)
next
  assume "fst (check_encoder cfg clk_level dt_level t) = Returned ()"
  then show "last_clk_state (snd (check_encoder cfg clk_level dt_level t)) = clk_level"
    by (rule check_encoder_stores)
next
  assume "fst (run cfg levels t) = Returned ()"
  then show "encoder_pos (snd (run cfg levels t)) =
          encoder_pos t
            + sum_list (concat (map2 (\<lambda>previous (c, d). edge_rotation previous c d)
                                 (last_clk_state t # map fst levels) levels))"
    using run_counts_edges [of cfg levels t] by simp
next
  assume "fst (run cfg levels t) = Returned ()"
  then show "last_clk_state (snd (run cfg levels t)) = last (last_clk_state t # map fst levels)"
    using run_counts_edges [of cfg levels t] by simp
next
  assume "fixed_servo t \<noteq> None \<or> mux_servo t = None"
  then show "fst (run cfg levels t) = Returned ()"
    by (rule run_returns)
qed

theorem rotation_on_falling_clk_edge_witness:
  "rotation_values (encoder_polling_thread
      [\<lparr>clk = False, dt = True, sw = False, now = 1\<rparr>,
       \<lparr>clk = True, dt = True, sw = False, now = 2\<rparr>,
       \<lparr>clk = True, dt = False, sw = False, now = 3\<rparr>,
       \<lparr>clk = False, dt = False, sw = False, now = 4\<rparr>] True 0 []) = [1, - 1]
   \<and> fixed_servo (fresh_tilt []) \<noteq> None
   \<and> fst (check_encoder tilt_default_config False True (fresh_tilt [])) = Returned ()
   \<and> last_clk_state (snd (check_encoder tilt_default_config False True (fresh_tilt [])))
       = False
   \<and> fst (run tilt_default_config
        [(False, True), (False, True), (False, True), (True, True), (False, True)]
        (fresh_tilt [])) = Returned ()
   \<and> encoder_pos (snd (run tilt_default_config
        [(False, True), (False, True), (False, True), (True, True), (False, True)]
        (fresh_tilt []))) = 2"
proof -
  have polled: "concat (map2 sample_rotation
      (True # map clk
         [\<lparr>clk = False, dt = True, sw = False, now = 1\<rparr>,
          \<lparr>clk = True, dt = True, sw = False, now = 2\<rparr>,
          \<lparr>clk = True, dt = False, sw = False, now = 3\<rparr>,
          \<lparr>clk = False, dt = False, sw = False, now = 4\<rparr>])
      [\<lparr>clk = False, dt = True, sw = False, now = 1\<rparr>,
       \<lparr>clk = True, dt = True, sw = False, now = 2\<rparr>,
       \<lparr>clk = True, dt = False, sw = False, now = 3\<rparr>,
       \<lparr>clk = False, dt = False, sw = False, now = 4\<rparr>]) = [1, - 1]"
    by (simp add: sample_rotation_def edge_rotation_def)
  have driven: "fixed_servo (fresh_tilt []) \<noteq> None"
    by code_simp
  have start: "encoder_pos (fresh_tilt []) = 0" "last_clk_state (fresh_tilt []) = True"
    by code_simp+
  have steps: "sum_list (concat (map2 (\<lambda>previous (c, d). edge_rotation previous c d)
      (True # map fst [(False, True), (False, True), (False, True), (True, True), (False, True)])
      [(False, True), (False, True), (False, True), (True, True), (False, True)])) = 2"
    by (simp add: edge_rotation_def)
  note decoded = rotation_on_falling_clk_edge
    [where previous = True
       and samples = "[\<lparr>clk = False, dt = True, sw = False, now = 1\<rparr>,
          \<lparr>clk = True, dt = True, sw = False, now = 2\<rparr>,
          \<lparr>clk = True, dt = False, sw = False, now = 3\<rparr>,
          \<lparr>clk = False, dt = False, sw = False, now = 4\<rparr>]"
       and press_time = 0
       and cfg = tilt_default_config and clk_level = False and dt_level = True
       and t = "fresh_tilt []"
       and levels = "[(False, True), (False, True), (False, True), (True, True), (False, True)]"]
  from decoded polled
  have first: "rotation_values (encoder_polling_thread
      [\<lparr>clk = False, dt = True, sw = False, now = 1\<rparr>,
       \<lparr>clk = True, dt = True, sw = False, now = 2\<rparr>,
       \<lparr>clk = True, dt = False, sw = False, now = 3\<rparr>,
       \<lparr>clk = False, dt = False, sw = False, now = 4\<rparr>] True 0 []) = [1, - 1]"
    by (simp only:)
  from decoded driven
  have returned: "fst (run tilt_default_config
        [(False, True), (False, True), (False, True), (True, True), (False, True)]
        (fresh_tilt [])) = Returned ()"
    by blast
  with decoded
  have "encoder_pos (snd (run tilt_default_config
        [(False, True), (False, True), (False, True), (True, True), (False, True)]
        (fresh_tilt []))) =
      encoder_pos (fresh_tilt [])
        + sum_list (concat (map2 (\<lambda>previous (c, d). edge_rotation previous c d)
            (last_clk_state (fresh_tilt [])
               # map fst [(False, True), (False, True), (False, True), (True, True), (False, True)])
            [(False, True), (False, True), (False, True), (True, True), (False, True)]))"
    by blast
  then have moved: "encoder_pos (snd (run tilt_default_config
        [(False, True), (False, True), (False, True), (True, True), (False, True)]
        (fresh_tilt []))) = 2"
    by (simp only: start steps)
  have one: "fst (check_encoder tilt_default_config False True (fresh_tilt [])) = Returned ()"
    using driven by (intro check_encoder_returns) simp
  with decoded
  have stored: "last_clk_state (snd (check_encoder tilt_default_config False True (fresh_tilt [])))
       = False"
    by blast
  from first driven one stored returned moved show ?thesis
    by blast
qed

section \<open>The position invariant\<close>

lemma update_servo_value:
  "current_angle (snd (update_servo cfg s)) =
     clamp (effective_min cfg (mode s)) (effective_max cfg (mode s))
       (center_angle cfg + of_int (encoder_pos s) * sensitivity cfg (mode s))"
  by (simp add: update_servo_def Let_def case_prod_beta io_frame set_angle_fields
        set_servo_angle_fields apply_limits_clamp split: option.splits res.splits)

lemma update_servo_invariant:
  "effective_min cfg (mode s) \<le> effective_max cfg (mode s) \<Longrightarrow>
     servo_invariant cfg (snd (update_servo cfg s))"
  by (simp add: servo_invariant_def update_servo_fields update_servo_value clamp_bounds)

lemma servo_invariant_frame:
  "servo_invariant cfg (s\<lparr>last_clk_state := l\<rparr>) = servo_invariant cfg s"
  by (simp add: servo_invariant_def)

lemma check_encoder_invariant:
  assumes "effective_min cfg (mode t) \<le> effective_max cfg (mode t)"
    and "clk_level \<noteq> last_clk_state t \<and> clk_level = False"
  shows "servo_invariant cfg (snd (check_encoder cfg clk_level dt_level t))"
  using assms
  by (auto simp add: check_encoder_state Let_def servo_invariant_frame
        update_servo_invariant split: res.splits)

lemma update_servo_angle_invariant:
  assumes "effective_min cfg (mode s) \<le> effective_max cfg (mode s)" and "servo_kit s"
  shows "servo_invariant cfg (update_servo_angle cfg d s)"
  using assms
  by (simp add: servo_invariant_def update_servo_angle_mode update_servo_angle_pos
        update_servo_angle_value clamp_bounds)

text \<open>
  Claim C5, as the code has it. When the bounds of the active mode are in order
  (minimum not above maximum), the invariant of the position model holds after every
  recomputation of the angle: after a rotation and after going home, in
  \<open>ScreenTiltController\<close> always and in the unified controller when the servo is
  initialised. Seeding from the persisted state and cycling the mode do not recompute
  the angle and are not covered.
\<close>

theorem position_invariant_after_update:
  "(effective_min cfg (mode t) \<le> effective_max cfg (mode t) \<longrightarrow>
      servo_invariant cfg (snd (update_servo cfg t))
      \<and> (clk_level \<noteq> last_clk_state t \<and> clk_level = False \<longrightarrow>
           servo_invariant cfg (snd (check_encoder cfg clk_level dt_level t)))
      \<and> servo_invariant cfg (snd (handle_single_click cfg t)))
   \<and> (effective_min cfg (mode s) \<le> effective_max cfg (mode s) \<and> servo_kit s \<longrightarrow>
        servo_invariant cfg (process_event cfg (EncoderEvent ''rotation'' d) s)
        \<and> servo_invariant cfg (process_event cfg (EncoderEvent ''click'' 0) s))"
proof (intro conjI impI)
  assume "effective_min cfg (mode t) \<le> effective_max cfg (mode t)"
  then show "servo_invariant cfg (snd (update_servo cfg t))"
    by (rule update_servo_invariant)
next
  assume "effective_min cfg (mode t) \<le> effective_max cfg (mode t)"
    and "clk_level \<noteq> last_clk_state t \<and> clk_level = False"
  then show "servo_invariant cfg (snd (check_encoder cfg clk_level dt_level t))"
    by (rule check_encoder_invariant)
next
  assume "effective_min cfg (mode t) \<le> effective_max cfg (mode t)"
  then show "servo_invariant cfg (snd (handle_single_click cfg t))"
    by (simp add: handle_single_click_def update_servo_invariant)
next
  assume "effective_min cfg (mode s) \<le> effective_max cfg (mode s) \<and> servo_kit s"
  then show "servo_invariant cfg (process_event cfg (EncoderEvent ''rotation'' d) s)"
    by (simp add: process_rotation update_servo_angle_invariant)
next
  assume "effective_min cfg (mode s) \<le> effective_max cfg (mode s) \<and> servo_kit s"
  then show "servo_invariant cfg (process_event cfg (EncoderEvent ''click'' 0) s)"
    by (simp add: process_event_def EncoderEvent_def update_servo_angle_invariant)
qed

theorem position_invariant_after_update_witness:
  "effective_min tilt_default_config (mode (fresh_tilt [])) 
     \<le> effective_max tilt_default_config (mode (fresh_tilt []))
   \<and> False \<noteq> last_clk_state (fresh_tilt [])
   \<and> servo_invariant tilt_default_config
        (snd (check_encoder tilt_default_config False True (fresh_tilt [])))
   \<and> current_angle (snd (check_encoder tilt_default_config False True (fresh_tilt []))) = 255
   \<and> effective_min unified_default_config (mode (booted []))
        \<le> effective_max unified_default_config (mode (booted []))
   \<and> servo_kit (booted [])
   \<and> servo_invariant unified_default_config
        (process_event unified_default_config (EncoderEvent ''rotation'' 20) (booted []))
   \<and> current_angle (process_event unified_default_config (EncoderEvent ''rotation'' 20)
        (booted [])) = 270"
proof -
  have tilt_side:
    "effective_min tilt_default_config (mode (fresh_tilt [])) 
       \<le> effective_max tilt_default_config (mode (fresh_tilt []))
     \<and> False \<noteq> last_clk_state (fresh_tilt [])
     \<and> current_angle (snd (check_encoder tilt_default_config False True (fresh_tilt []))) = 255"
    by code_simp
  have unified_side:
    "effective_min unified_default_config (mode (booted []))
        \<le> effective_max unified_default_config (mode (booted []))
     \<and> servo_kit (booted [])
     \<and> current_angle (process_event unified_default_config (EncoderEvent ''rotation'' 20)
        (booted [])) = 270"
    by code_simp
  show ?thesis
    using tilt_side unified_side
      position_invariant_after_update
        [of tilt_default_config "fresh_tilt []" False True "booted []" 20]
      position_invariant_after_update
        [of unified_default_config "fresh_tilt []" False True "booted []" 20]
    by simp
qed

text \<open>
  The claim as it is worded fails at the seeding and at the mode switch. A unified
  controller started on a state file that holds 200 has angle 200 at encoder position 0,
  where the clamped image of the position is 145. A screen tilt controller started
  without a state file and double-clicked twice is in Range mode at angle 250, above
  the maximum 180 of that mode.
\<close>

theorem position_invariant_counterexample:
  "\<not> servo_invariant unified_default_config
        (unified_init unified_default_config
           \<lparr>last_position = Some 200, saved_mode = Some Direct\<rparr> True [])
   \<and> servo_invariant tilt_default_config (fresh_tilt [])
   \<and> \<not> servo_invariant tilt_default_config
        (snd (handle_double_click tilt_default_config
           (snd (handle_double_click tilt_default_config (fresh_tilt [])))))
   \<and> mode (snd (handle_double_click tilt_default_config
           (snd (handle_double_click tilt_default_config (fresh_tilt []))))) = Range
   \<and> current_angle (snd (handle_double_click tilt_default_config
           (snd (handle_double_click tilt_default_config (fresh_tilt []))))) = 250"
  by code_simp

section \<open>Cycling the mode\<close>

text \<open>
  Claim C6, as the code has it. The double-click handler advances the mode in the order
  Direct, Fine, Range, Direct and leaves the angle exactly as it was, without clamping
  it to the bounds of the new mode. When the sensitivity of the new mode is not 0 it
  returns and sets the encoder position to \<open>int((angle - center_angle) / sensitivity)\<close>,
  the quotient truncated towards zero, not rounded.
\<close>

theorem cycle_mode_truncates_position:
  "mode (snd (handle_double_click cfg t)) = next_mode (mode t)
   \<and> current_angle (snd (handle_double_click cfg t)) = current_angle t
   \<and> (sensitivity cfg (next_mode (mode t)) \<noteq> 0 \<longrightarrow>
        fst (handle_double_click cfg t) = Returned ()
        \<and> encoder_pos (snd (handle_double_click cfg t)) =
            py_int ((current_angle t - center_angle cfg) / sensitivity cfg (next_mode (mode t))))"
  by (cases "mode t") (simp_all add: handle_double_click_def modes_def Let_def)

theorem cycle_mode_truncates_position_witness:
  "sensitivity tilt_default_config (next_mode (mode (saved_tilt 254 Fine))) \<noteq> 0
   \<and> mode (snd (handle_double_click tilt_default_config (saved_tilt 254 Fine))) = Range
   \<and> current_angle (snd (handle_double_click tilt_default_config (saved_tilt 254 Fine))) = 254
   \<and> encoder_pos (snd (handle_double_click tilt_default_config (saved_tilt 254 Fine))) = 0"
proof -
  let ?t = "saved_tilt 254 Fine"
  have nonzero: "sensitivity tilt_default_config (next_mode (mode ?t)) \<noteq> 0"
    by code_simp
  have target: "next_mode (mode ?t) = Range"
    by code_simp
  have angle: "current_angle ?t = 254"
    by code_simp
  have truncated:
    "py_int ((current_angle ?t - center_angle tilt_default_config)
       / sensitivity tilt_default_config (next_mode (mode ?t))) = 0"
    by code_simp
  note switched = cycle_mode_truncates_position [of tilt_default_config ?t]
  from switched nonzero
  have "encoder_pos (snd (handle_double_click tilt_default_config ?t)) =
      py_int ((current_angle ?t - center_angle tilt_default_config)
        / sensitivity tilt_default_config (next_mode (mode ?t)))"
    by blast
  with truncated
  have position: "encoder_pos (snd (handle_double_click tilt_default_config ?t)) = 0"
    by (simp only:)
  from switched target
  have new_mode: "mode (snd (handle_double_click tilt_default_config ?t)) = Range"
    by (simp only:)
  from switched angle
  have same_angle: "current_angle (snd (handle_double_click tilt_default_config ?t)) = 254"
    by (simp only:)
  from nonzero new_mode same_angle position show ?thesis
    by blast
qed

text \<open>
  The claim as it is worded fails on the rounding: switching from Fine at angle 254 to
  Range (centre 250, sensitivity 5) sets the encoder position to 0, where rounding 4/5
  gives 1.
\<close>

theorem cycle_mode_round_counterexample:
  "encoder_pos (snd (handle_double_click tilt_default_config (saved_tilt 254 Fine))) = 0
   \<and> round ((current_angle (saved_tilt 254 Fine) - center_angle tilt_default_config)
        / sensitivity tilt_default_config (next_mode (mode (saved_tilt 254 Fine)))) = 1"
  by code_simp

section \<open>Button gestures\<close>


lemma handle_single_click_gestures:
  "gestures (snd (handle_single_click cfg s)) = gestures s @ [SingleClick]"
  by (simp add: handle_single_click_def update_servo_fields)

lemma handle_double_click_gestures:
  "gestures (snd (handle_double_click cfg s)) = gestures s @ [DoubleClicked]"
  by (cases "mode s") (simp_all add: handle_double_click_def modes_def Let_def)

lemma process_clicks_gestures:
  "gestures (snd (process_clicks cfg s)) =
     gestures s @ (if click_count s = 1 then [SingleClick]
                   else if click_count s = 2 then [DoubleClicked] else [])"
  by (simp add: process_clicks_def case_prod_beta handle_single_click_gestures
        handle_double_click_gestures split: res.splits)

lemma process_clicks_other:
  "click_count s \<noteq> 1 \<Longrightarrow> click_count s \<noteq> 2 \<Longrightarrow>
     process_clicks cfg s = (Returned (), s\<lparr>click_count := 0\<rparr>)"
  by (simp add: process_clicks_def)




















text \<open>
  Claim C8, as the code has it. When the timer fires with a click count of exactly 2 the
  double-click handler runs once. With any count other than 1 and 2, three clicks for
  example, no handler runs at all: the clicks are dropped and the count is reset to 0.
\<close>

theorem click_burst_processing:
  "(click_count t = 2 \<longrightarrow>
      gestures (snd (process_clicks cfg t)) = gestures t @ [DoubleClicked])
   \<and> (click_count t \<noteq> 1 \<and> click_count t \<noteq> 2 \<longrightarrow>
        process_clicks cfg t = (Returned (), t\<lparr>click_count := 0\<rparr>))"
  by (simp add: process_clicks_gestures process_clicks_other)

theorem click_burst_processing_witness:
  "click_count ((fresh_tilt [])\<lparr>click_count := 2\<rparr>) = 2
   \<and> gestures (snd (process_clicks tilt_default_config ((fresh_tilt [])\<lparr>click_count := 2\<rparr>)))
       = [DoubleClicked]
   \<and> click_count ((fresh_tilt [])\<lparr>click_count := 3\<rparr>) \<noteq> 1
   \<and> click_count ((fresh_tilt [])\<lparr>click_count := 3\<rparr>) \<noteq> 2
   \<and> gestures (snd (process_clicks tilt_default_config ((fresh_tilt [])\<lparr>click_count := 3\<rparr>)))
       = []"
proof -
  have idle: "gestures (fresh_tilt []) = []"
    by code_simp
  show ?thesis
    using idle
      click_burst_processing [of "(fresh_tilt [])\<lparr>click_count := 2\<rparr>" tilt_default_config]
      click_burst_processing [of "(fresh_tilt [])\<lparr>click_count := 3\<rparr>" tilt_default_config]
    by simp
qed

text \<open>
  The claim as it is worded fails on a triple click: three short presses, each released
  within 300 ms of the one before, leave a count of 3 when the timer fires, and no
  handler runs.
\<close>

theorem triple_click_counterexample:
  "click_count (button_run tilt_default_config
      [Pressed 10, Released (10 + 1 / 10) False,
       Pressed (10 + 2 / 10), Released (10 + 3 / 10) False,
       Pressed (10 + 4 / 10), Released (10 + 5 / 10) False] (fresh_tilt [])) = 3
   \<and> gestures (settle tilt_default_config (button_run tilt_default_config
      [Pressed 10, Released (10 + 1 / 10) False,
       Pressed (10 + 2 / 10), Released (10 + 3 / 10) False,
       Pressed (10 + 4 / 10), Released (10 + 5 / 10) False] (fresh_tilt []))) = []"
  by code_simp

end
